theory Spec2Isabelle
  imports Complex_Main
begin

section \<open>Chord extraction from MIDI note events\<close>

text \<open>
  A shallow embedding of \<^verbatim>\<open>ChordExtractor\<close> in
  \<^verbatim>\<open>scripts/comprehensive_chord_extractor.py\<close>. Times are Python floats:
  a float is modelled as the rational number it denotes, and every division and addition
  of floats in the source as the exact result rounded to a double. Pitches and pitch
  classes are Python's unbounded integers.
\<close>

subsection \<open>Data\<close>

text \<open>A \<^verbatim>\<open>pretty_midi.Note\<close>; the source's field \<^verbatim>\<open>end\<close> is \<open>end_time\<close> here.\<close>

record midi_note =
  pitch :: int
  start :: rat
  end_time :: rat

text \<open>A \<^verbatim>\<open>pretty_midi.Instrument\<close>, as far as the extractor reads it.\<close>

record instrument =
  is_drum :: bool
  inst_notes :: "midi_note list"

datatype error = IndexError | ValueError

subsection \<open>The tables built by \<^verbatim>\<open>__init__\<close>\<close>

definition note_names :: "string list" where
  "note_names = [''C'', ''C#'', ''D'', ''D#'', ''E'', ''F'', ''F#'', ''G'', ''G#'', ''A'', ''A#'', ''B'']"

text \<open>
  The dictionary literal \<^verbatim>\<open>self.chord_patterns\<close>, in source order: each key is
  a \<^verbatim>\<open>frozenset\<close> of pitch classes.
\<close>

definition chord_patterns_items :: "(int set \<times> string) list" where
  "chord_patterns_items =
    [({0, 4, 7}, ''C''), ({1, 5, 8}, ''C#''), ({2, 6, 9}, ''D''),
     ({3, 7, 10}, ''D#''), ({4, 8, 11}, ''E''), ({5, 9, 0}, ''F''),
     ({6, 10, 1}, ''F#''), ({7, 11, 2}, ''G''), ({8, 0, 3}, ''G#''),
     ({9, 1, 4}, ''A''), ({10, 2, 5}, ''A#''), ({11, 3, 6}, ''B''),

     ({0, 3, 7}, ''Cm''), ({1, 4, 8}, ''C#m''), ({2, 5, 9}, ''Dm''),
     ({3, 6, 10}, ''D#m''), ({4, 7, 11}, ''Em''), ({5, 8, 0}, ''Fm''),
     ({6, 9, 1}, ''F#m''), ({7, 10, 2}, ''Gm''), ({8, 11, 3}, ''G#m''),
     ({9, 0, 4}, ''Am''), ({10, 1, 5}, ''A#m''), ({11, 2, 6}, ''Bm''),

     ({0, 4, 7, 11}, ''Cmaj7''), ({1, 5, 8, 0}, ''C#maj7''), ({2, 6, 9, 1}, ''Dmaj7''),
     ({3, 7, 10, 2}, ''D#maj7''), ({4, 8, 11, 3}, ''Emaj7''), ({5, 9, 0, 4}, ''Fmaj7''),
     ({6, 10, 1, 5}, ''F#maj7''), ({7, 11, 2, 6}, ''Gmaj7''), ({8, 0, 3, 7}, ''G#maj7''),
     ({9, 1, 4, 8}, ''Amaj7''), ({10, 2, 5, 9}, ''A#maj7''), ({11, 3, 6, 10}, ''Bmaj7''),

     ({0, 4, 7, 10}, ''C7''), ({1, 5, 8, 11}, ''C#7''), ({2, 6, 9, 0}, ''D7''),
     ({3, 7, 10, 1}, ''D#7''), ({4, 8, 11, 2}, ''E7''), ({5, 9, 0, 3}, ''F7''),
     ({6, 10, 1, 4}, ''F#7''), ({7, 11, 2, 5}, ''G7''), ({8, 0, 3, 6}, ''G#7''),
     ({9, 1, 4, 7}, ''A7''), ({10, 2, 5, 8}, ''A#7''), ({11, 3, 6, 9}, ''B7'')]"

text \<open>
  A Python dictionary literal stores its items from left to right, a later item
  overwriting an earlier one with an equal key.
\<close>

definition dict_of :: "('k \<times> 'v) list \<Rightarrow> ('k \<rightharpoonup> 'v)" where
  "dict_of items = foldl (\<lambda>m (k, v). m(k \<mapsto> v)) Map.empty items"

definition chord_patterns :: "int set \<rightharpoonup> string" where
  "chord_patterns = dict_of chord_patterns_items"

subsection \<open>\<^verbatim>\<open>pitches_to_chord_name\<close>\<close>

text \<open>
  Subscripting a Python list: an index from 0 reads from the front, an index below 0
  reads from the back, and an index outside both ranges raises \<^verbatim>\<open>IndexError\<close>.
\<close>

definition py_index :: "'a list \<Rightarrow> int \<Rightarrow> error + 'a" where
  "py_index xs i =
     (if 0 \<le> i \<and> i < int (length xs) then Inr (xs ! nat i)
      else if - int (length xs) \<le> i \<and> i < 0 then Inr (xs ! nat (int (length xs) + i))
      else Inl IndexError)"

text \<open>
  The loop \<^verbatim>\<open>for chord_size in [4, 3]\<close>: the first size that the list is long
  enough for and whose leading slice, as a set, is a key of the table gives the name.
\<close>

fun match_sizes :: "nat list \<Rightarrow> int list \<Rightarrow> string option" where
  "match_sizes [] pitches = None"
| "match_sizes (chord_size # rest) pitches =
     (if length pitches \<ge> chord_size then
        (case chord_patterns (set (take chord_size pitches)) of
           Some name \<Rightarrow> Some name
         | None \<Rightarrow> match_sizes rest pitches)
      else match_sizes rest pitches)"

definition pitches_to_chord_name :: "int list \<Rightarrow> error + string option" where
  "pitches_to_chord_name pitches =
     (if pitches = [] then Inr None
      else case match_sizes [4, 3] pitches of
             Some name \<Rightarrow> Inr (Some name)
           | None \<Rightarrow> map_sum id Some (py_index note_names (hd pitches)))"

subsection \<open>Float arithmetic\<close>

text \<open>
  A double has a significand of 53 bits. An arithmetic operation returns the double
  nearest to the exact result, and of two nearest doubles the one with the even
  significand. The exponent is not bounded here: overflow, underflow to subnormal
  numbers, infinities and NaN are outside the model.
\<close>

definition round_half_even :: "rat \<Rightarrow> int" where
  "round_half_even m =
     (let f = \<lfloor>m\<rfloor>; r = m - of_int f
      in if r < 1 / 2 then f else if 1 / 2 < r then f + 1 else if even f then f else f + 1)"

text \<open>For \<open>x\<close> from 1: how often \<open>x\<close> is halved until it is below 2.\<close>

function halvings :: "rat \<Rightarrow> nat" where
  "halvings x = (if x < 2 then 0 else Suc (halvings (x / 2)))"
  by pat_completeness auto
termination
proof (relation "measure (\<lambda>x. nat \<lfloor>x\<rfloor>)")
  show "wf (measure (\<lambda>x::rat. nat \<lfloor>x\<rfloor>))" by simp
next
  fix x :: rat
  assume large: "\<not> x < 2"
  then have "x / 2 \<le> x - 1" by simp
  then have "\<lfloor>x / 2\<rfloor> \<le> \<lfloor>x - 1\<rfloor>" by (rule floor_mono)
  moreover have "1 \<le> \<lfloor>x\<rfloor>" using large by (simp add: le_floor_iff)
  ultimately show "(x / 2, x) \<in> measure (\<lambda>x. nat \<lfloor>x\<rfloor>)" by simp
qed

text \<open>For \<open>x\<close> between 0 and 1: how often \<open>x\<close> is doubled until it is at least 1.\<close>

function doublings :: "rat \<Rightarrow> nat" where
  "doublings x = (if 1 \<le> x \<or> x \<le> 0 then 0 else Suc (doublings (2 * x)))"
  by pat_completeness auto
termination
proof (relation "measure (\<lambda>x. nat \<lceil>1 / x\<rceil>)")
  show "wf (measure (\<lambda>x::rat. nat \<lceil>1 / x\<rceil>))" by simp
next
  fix x :: rat
  assume "\<not> (1 \<le> x \<or> x \<le> 0)"
  then have x: "0 < x" "x < 1" by simp_all
  then have "1 < 1 / x" by simp
  then have c: "2 \<le> \<lceil>1 / x\<rceil>" by (simp add: le_ceiling_iff)
  have "1 / (2 * x) = (1 / x) / 2" by simp
  also have "\<dots> \<le> of_int \<lceil>1 / x\<rceil> / 2" by (simp add: divide_right_mono)
  also have "\<dots> \<le> of_int (\<lceil>1 / x\<rceil> - 1)" using c by simp
  finally have "\<lceil>1 / (2 * x)\<rceil> \<le> \<lceil>1 / x\<rceil> - 1" by (rule ceiling_le)
  with c x show "(2 * x, x) \<in> measure (\<lambda>x. nat \<lceil>1 / x\<rceil>)" by simp
qed

declare halvings.simps [simp del] doublings.simps [simp del]

text \<open>The exponent \<open>e\<close> that puts \<open>\<bar>x\<bar> / 2 ^ e\<close> between \<open>2 ^ 52\<close> and \<open>2 ^ 53\<close>.\<close>

definition float_exponent :: "rat \<Rightarrow> int" where
  "float_exponent x =
     (if 1 \<le> \<bar>x\<bar> then int (halvings \<bar>x\<bar>) else - int (doublings \<bar>x\<bar>)) - 52"

definition float_round :: "rat \<Rightarrow> rat" where
  "float_round x =
     (if x = 0 then 0
      else let e = float_exponent x
           in sgn x * of_int (round_half_even (\<bar>x\<bar> / 2 powi e)) * 2 powi e)"

definition float_add :: "rat \<Rightarrow> rat \<Rightarrow> rat" where
  "float_add x y = float_round (x + y)"

definition float_div :: "rat \<Rightarrow> rat \<Rightarrow> rat" where
  "float_div x y = float_round (x / y)"

subsection \<open>Built-ins the extractor calls\<close>

text \<open>\<^verbatim>\<open>max\<close> over a generator: the largest element, \<^verbatim>\<open>ValueError\<close> on an empty one.\<close>

fun py_max :: "rat list \<Rightarrow> error + rat" where
  "py_max [] = Inl ValueError"
| "py_max (x # xs) = Inr (foldl max x xs)"

text \<open>\<^verbatim>\<open>int\<close> of a float truncates towards zero.\<close>

definition py_int :: "rat \<Rightarrow> int" where
  "py_int x = (if 0 \<le> x then \<lfloor>x\<rfloor> else \<lceil>x\<rceil>)"

text \<open>
  \<^verbatim>\<open>collections.Counter\<close>: a dictionary from element to count, its keys in
  order of first insertion.
\<close>

fun counter_add :: "'a \<Rightarrow> ('a \<times> nat) list \<Rightarrow> ('a \<times> nat) list" where
  "counter_add x [] = [(x, 1)]"
| "counter_add x ((y, c) # rest) =
     (if x = y then (y, c + 1) # rest else (y, c) # counter_add x rest)"

definition Counter :: "'a list \<Rightarrow> ('a \<times> nat) list" where
  "Counter xs = foldl (\<lambda>c x. counter_add x c) [] xs"

text \<open>
  \<^verbatim>\<open>most_common(n)\<close> is \<^verbatim>\<open>heapq.nlargest(n, items, key=count)\<close>, which
  equals \<^verbatim>\<open>sorted(items, key=count, reverse=True)[:n]\<close>: a stable sort, so items
  of equal count stay in order of first insertion.
\<close>

definition most_common :: "nat \<Rightarrow> ('a \<times> nat) list \<Rightarrow> ('a \<times> nat) list" where
  "most_common n c = take n (sort_key (\<lambda>(x, k). - int k) c)"

text \<open>\<^verbatim>\<open>sep.join(xs)\<close>\<close>

fun join :: "string \<Rightarrow> string list \<Rightarrow> string" where
  "join sep [] = []"
| "join sep [x] = x"
| "join sep (x # y # ys) = x @ sep @ join sep (y # ys)"

subsection \<open>\<^verbatim>\<open>midi_to_chords\<close>\<close>

text \<open>Lines 51 to 54: the notes of every instrument that is not a drum kit.\<close>

fun collect_notes :: "instrument list \<Rightarrow> midi_note list \<Rightarrow> midi_note list" where
  "collect_notes [] all_notes = all_notes"
| "collect_notes (inst # rest) all_notes =
     collect_notes rest (if \<not> is_drum inst then all_notes @ inst_notes inst else all_notes)"

text \<open>Lines 72 to 77: the pitch classes gathered for the window starting at \<open>current_time\<close>.\<close>

fun window_notes_loop :: "midi_note list \<Rightarrow> rat \<Rightarrow> rat \<Rightarrow> int list \<Rightarrow> int list" where
  "window_notes_loop [] current_time window_size window_notes = window_notes"
| "window_notes_loop (n # rest) current_time window_size window_notes =
     window_notes_loop rest current_time window_size
       (if (start n \<le> current_time \<and> current_time < end_time n) \<or>
           (current_time \<le> start n \<and> start n < float_add current_time window_size)
        then window_notes @ [pitch n mod 12]
        else window_notes)"

text \<open>
  Lines 72 to 88: one pass of the body of the \<^verbatim>\<open>while\<close> loop, from the list
  \<open>chords\<close> so far to the list after the window. An exception leaves the loop.
\<close>

definition window_step :: "midi_note list \<Rightarrow> rat \<Rightarrow> rat \<Rightarrow> string list \<Rightarrow> error + string list" where
  "window_step all_notes window_size current_time chords =
     (let window_notes = window_notes_loop all_notes current_time window_size [] in
      if length window_notes \<ge> 3 then
        (let pitch_counts = Counter window_notes;
             chord_pitches = map fst (most_common 6 pitch_counts)
         in if chord_pitches \<noteq> [] then
              (case pitches_to_chord_name chord_pitches of
                 Inl e \<Rightarrow> Inl e
               | Inr None \<Rightarrow> Inr chords
               | Inr (Some chord_name) \<Rightarrow>
                   (if chord_name \<noteq> [] \<and> (chords = [] \<or> chord_name \<noteq> last chords)
                    then Inr (chords @ [chord_name])
                    else Inr chords))
            else Inr chords)
      else Inr chords)"

text \<open>
  Lines 70 to 90: the \<^verbatim>\<open>while\<close> loop; \<^verbatim>\<open>current_time\<close> grows by a float
  addition. Nothing in the loop itself bounds the number of passes, so a run that never
  leaves it is the value \<open>None\<close>.
\<close>

partial_function (option) window_loop ::
  "midi_note list \<Rightarrow> rat \<Rightarrow> rat \<Rightarrow> rat \<Rightarrow> string list \<Rightarrow> (error + string list) option" where
  "window_loop all_notes song_length window_size current_time chords =
     (if current_time < song_length then
        (case window_step all_notes window_size current_time chords of
           Inl e \<Rightarrow> Some (Inl e)
         | Inr chords' \<Rightarrow>
             window_loop all_notes song_length window_size
               (float_add current_time window_size) chords')
      else Some (Inr chords))"

text \<open>Lines 93 to 98: keep the first occurrence of each name, stop at eight names.\<close>

fun unique_loop :: "string list \<Rightarrow> string list \<Rightarrow> string list" where
  "unique_loop [] unique_chords = unique_chords"
| "unique_loop (chord # rest) unique_chords =
     (let unique_chords' =
        (if chord \<notin> set unique_chords then unique_chords @ [chord] else unique_chords)
      in if length unique_chords' \<ge> 8 then unique_chords' else unique_loop rest unique_chords')"

text \<open>Line 64.\<close>

definition num_windows_of :: "rat \<Rightarrow> int" where
  "num_windows_of song_length = max 8 (min 16 (py_int (float_div song_length 2)))"

text \<open>Line 65: a float divided by an integer, which Python converts to a float first.\<close>

definition window_size_of :: "rat \<Rightarrow> rat" where
  "window_size_of song_length = float_div song_length (of_int (num_windows_of song_length))"

text \<open>Lines 60 to 98, on the non-drum notes: the list \<^verbatim>\<open>unique_chords\<close>.\<close>

definition unique_chords_of :: "midi_note list \<Rightarrow> (error + string list) option" where
  "unique_chords_of notes0 =
     (let all_notes = sort_key start notes0 in
      case py_max (map end_time all_notes) of
        Inl e \<Rightarrow> Some (Inl e)
      | Inr song_length \<Rightarrow>
          (let window_size = window_size_of song_length
           in case window_loop all_notes song_length window_size 0 [] of
                None \<Rightarrow> None
              | Some (Inl e) \<Rightarrow> Some (Inl e)
              | Some (Inr chords) \<Rightarrow> Some (Inr (unique_loop chords []))))"

text \<open>
  The whole function, on the instruments of the parsed file. The result is
  \<open>None\<close> if the function never returns, \<open>Some None\<close> if it returns Python's
  \<^verbatim>\<open>None\<close>, and \<open>Some (Some s)\<close> if it returns the string \<open>s\<close>. The handler
  at line 102 turns every exception into \<^verbatim>\<open>None\<close>.
\<close>

definition midi_to_chords :: "instrument list \<Rightarrow> string option option" where
  "midi_to_chords instruments =
     (let all_notes = collect_notes instruments [] in
      if all_notes = [] then Some None
      else case unique_chords_of all_notes of
             None \<Rightarrow> None
           | Some (Inl e) \<Rightarrow> Some None
           | Some (Inr unique_chords) \<Rightarrow>
               Some (if unique_chords \<noteq> [] then Some (join '' - '' unique_chords) else None))"

text \<open>
  The sequence of chord names behind the returned value: the list that line 100
  joins, and the empty list where the function returns \<^verbatim>\<open>None\<close> without one.
\<close>

definition chord_sequence :: "instrument list \<Rightarrow> string list option" where
  "chord_sequence instruments =
     (let all_notes = collect_notes instruments [] in
      if all_notes = [] then Some []
      else case unique_chords_of all_notes of
             None \<Rightarrow> None
           | Some (Inl e) \<Rightarrow> Some []
           | Some (Inr unique_chords) \<Rightarrow> Some unique_chords)"

subsection \<open>Reference definitions\<close>

text \<open>
  The resolution rule in the words of the specification: the name for the set of the
  first four pitch classes if the table has it, else the name for the set of the first
  three, else the label of the first pitch class.
\<close>

definition resolve_spec :: "int list \<Rightarrow> string" where
  "resolve_spec P =
     (case chord_patterns (set (take 4 P)) of
        Some name \<Rightarrow> name
      | None \<Rightarrow>
          (case chord_patterns (set (take 3 P)) of
             Some name \<Rightarrow> name
           | None \<Rightarrow> note_names ! nat (hd P)))"

text \<open>
  The body of the \<^verbatim>\<open>while\<close> loop, run once for each start time of a list:
  what the loop does if it makes exactly these passes.
\<close>

fun run_windows :: "midi_note list \<Rightarrow> rat \<Rightarrow> rat list \<Rightarrow> string list \<Rightarrow> error + string list" where
  "run_windows all_notes S [] chords = Inr chords"
| "run_windows all_notes S (t # ts) chords =
     (case window_step all_notes S t chords of
        Inl e \<Rightarrow> Inl e
      | Inr chords' \<Rightarrow> run_windows all_notes S ts chords')"

text \<open>
  The start times of the passes of the \<^verbatim>\<open>while\<close> loop: the same loop, its body
  replaced by a note of \<^verbatim>\<open>current_time\<close>.
\<close>

partial_function (option) window_starts :: "rat \<Rightarrow> rat \<Rightarrow> rat \<Rightarrow> rat list \<Rightarrow> rat list option" where
  "window_starts song_length window_size current_time visited =
     (if current_time < song_length then
        window_starts song_length window_size (float_add current_time window_size)
          (visited @ [current_time])
      else Some visited)"

subsection \<open>Example recordings\<close>

text \<open>Notes of the given pitches sounding together for one second from time \<open>t\<close>.\<close>

definition seg :: "int list \<Rightarrow> rat \<Rightarrow> midi_note list" where
  "seg ps t = map (\<lambda>p. \<lparr>pitch = p, start = t, end_time = t + 1\<rparr>) ps"

text \<open>Eight seconds that alternate every second between C major and G major.\<close>

definition alt_notes :: "midi_note list" where
  "alt_notes =
     seg [60, 64, 67] 0 @ seg [67, 71, 62] 1 @ seg [60, 64, 67] 2 @ seg [67, 71, 62] 3 @
     seg [60, 64, 67] 4 @ seg [67, 71, 62] 5 @ seg [60, 64, 67] 6 @ seg [67, 71, 62] 7"

definition alt_song :: "instrument list" where
  "alt_song = [\<lparr>is_drum = False, inst_notes = alt_notes\<rparr>]"

text \<open>
  Twenty-three seconds: a C major triad held for 22.5 seconds, then a G major triad for
  the last half second.
\<close>

definition drift_notes :: "midi_note list" where
  "drift_notes =
     map (\<lambda>p. \<lparr>pitch = p, start = 0, end_time = 45 / 2\<rparr>) [60, 64, 67] @
     map (\<lambda>p. \<lparr>pitch = p, start = 45 / 2, end_time = 23\<rparr>) [67, 71, 62]"

definition drift_song :: "instrument list" where
  "drift_song = [\<lparr>is_drum = False, inst_notes = drift_notes\<rparr>]"

text \<open>A note that starts at 6.25 seconds in a recording of 25 seconds.\<close>

definition late_note :: midi_note where
  "late_note = \<lparr>pitch = 60, start = 25 / 4, end_time = 25\<rparr>"

text \<open>One note held for four seconds, and a file with a drum track only.\<close>

definition lone_note_song :: "instrument list" where
  "lone_note_song = [\<lparr>is_drum = False, inst_notes = [\<lparr>pitch = 60, start = 0, end_time = 4\<rparr>]\<rparr>]"

definition drums_only_song :: "instrument list" where
  "drums_only_song = [\<lparr>is_drum = True, inst_notes = [\<lparr>pitch = 36, start = 0, end_time = 1\<rparr>]\<rparr>]"

section \<open>Properties\<close>


subsection \<open>The chord table and the resolution of a pitch sequence\<close>

lemma dict_of_foldl: "foldl (\<lambda>m (k, v). m(k \<mapsto> v)) m items = m ++ map_of (rev items)"
  by (induction items arbitrary: m) (auto simp: map_add_def fun_eq_iff split: option.splits)

lemma dict_of_map_of: "dict_of items = map_of (rev items)"
  by (simp add: dict_of_def dict_of_foldl)

lemma dom_dict_of: "dom (dict_of items) = fst ` set items"
  by (simp add: dict_of_map_of dom_map_of_conv_image_fst)

lemma chord_patterns_keys_distinct: "distinct (map fst chord_patterns_items)"
  by code_simp

lemma chord_patterns_items_length: "length chord_patterns_items = 48"
  by (simp add: chord_patterns_items_def)

lemma chord_patterns_card: "card (dom chord_patterns) = 48"
  using distinct_card [OF chord_patterns_keys_distinct]
  by (simp add: chord_patterns_def dom_dict_of chord_patterns_items_length)

lemma chord_patterns_keys_size: "list_all (\<lambda>k. 3 \<le> card k) (map fst chord_patterns_items)"
  by code_simp

lemma chord_patterns_key_card:
  assumes "chord_patterns S = Some name"
  shows "3 \<le> card S"
proof -
  from assms have "S \<in> dom chord_patterns" by blast
  then have "S \<in> set (map fst chord_patterns_items)"
    by (simp add: chord_patterns_def dom_dict_of)
  with chord_patterns_keys_size show ?thesis
    by (auto simp: list_all_iff)
qed

lemma chord_patterns_short:
  assumes "length pitches < 3"
  shows "chord_patterns (set (take k pitches)) = None"
proof (cases "chord_patterns (set (take k pitches))")
  case None
  then show ?thesis .
next
  case (Some name)
  then have "3 \<le> card (set (take k pitches))" by (rule chord_patterns_key_card)
  moreover have "card (set (take k pitches)) \<le> length (take k pitches)" by (rule card_length)
  ultimately show ?thesis using assms by simp
qed

lemma note_names_index:
  assumes "0 \<le> p" and "p \<le> 11"
  shows "py_index note_names p = Inr (note_names ! nat p)"
  using assms by (simp add: py_index_def note_names_def)

lemma match_sizes_resolve:
  "match_sizes [4, 3] P =
     (case chord_patterns (set (take 4 P)) of
        Some name \<Rightarrow> Some name
      | None \<Rightarrow> chord_patterns (set (take 3 P)))"
proof -
  consider "4 \<le> length P" | "length P = 3" | "length P < 3" by linarith
  then show ?thesis
  proof cases
    case 1
    then show ?thesis by (simp split: option.splits)
  next
    case 2
    then show ?thesis by (simp split: option.splits)
  next
    case 3
    then show ?thesis
      using chord_patterns_short [of P 4] chord_patterns_short [of P 3] by simp
  qed
qed

lemma pitches_to_chord_name_ok:
  assumes "P \<noteq> []" and "\<forall>p\<in>set P. 0 \<le> p \<and> p \<le> 11"
  shows "pitches_to_chord_name P = Inr (Some (resolve_spec P))"
proof -
  from assms have "0 \<le> hd P" and "hd P \<le> 11" by (cases P; simp)+
  then have "py_index note_names (hd P) = Inr (note_names ! nat (hd P))"
    by (rule note_names_index)
  with assms(1) show ?thesis
    unfolding pitches_to_chord_name_def resolve_spec_def match_sizes_resolve
    by (simp split: option.splits)
qed

lemma pitches_to_chord_name_F: "pitches_to_chord_name [5] = Inr (Some ''F'')"
proof -
  have "match_sizes [4, 3] [5] = None" by (simp add: chord_patterns_short)
  then show ?thesis
    by (simp add: pitches_to_chord_name_def py_index_def note_names_def)
qed

text \<open>
  C3: on a non-empty sequence of pitch classes between 0 and 11,
  \<^verbatim>\<open>pitches_to_chord_name\<close> raises nothing and returns a string: the table's name
  for the set of the first four elements if there is one, else the table's name for the
  set of the first three if there is one, else the note name of the first element. On
  the one-element sequence 5 it returns F.
\<close>

theorem pitches_to_chord_name_resolves:
  assumes "P \<noteq> []" and "\<forall>p\<in>set P. 0 \<le> p \<and> p \<le> 11"
  shows "pitches_to_chord_name P = Inr (Some (resolve_spec P)) \<and>
         pitches_to_chord_name [5] = Inr (Some ''F'')"
  using pitches_to_chord_name_ok [OF assms] pitches_to_chord_name_F by simp

lemma chord_patterns_Dmaj7: "chord_patterns {2, 6, 9, 1} = Some ''Dmaj7''"
  by code_simp

text \<open>The theorem at the sequence 2, 6, 9, 1, which resolves to Dmaj7.\<close>

theorem pitches_to_chord_name_resolves_witness:
  "[2, 6, 9, 1] \<noteq> ([] :: int list) \<and> list_all (\<lambda>p. 0 \<le> p \<and> p \<le> 11) [2, 6, 9, 1 :: int] \<and>
   pitches_to_chord_name [2, 6, 9, 1] = Inr (Some ''Dmaj7'')"
  using pitches_to_chord_name_resolves [of "[2, 6, 9, 1]"]
  by (simp add: resolve_spec_def chord_patterns_Dmaj7)

lemma chord_patterns_rows:
  "\<forall>r\<in>{0..11}.
      chord_patterns {r, (r + 4) mod 12, (r + 7) mod 12} = Some (note_names ! nat r) \<and>
      chord_patterns {r, (r + 3) mod 12, (r + 7) mod 12} = Some (note_names ! nat r @ ''m'') \<and>
      chord_patterns {r, (r + 4) mod 12, (r + 7) mod 12, (r + 11) mod 12} =
        Some (note_names ! nat r @ ''maj7'') \<and>
      chord_patterns {r, (r + 4) mod 12, (r + 7) mod 12, (r + 10) mod 12} =
        Some (note_names ! nat r @ ''7'')"
  by code_simp

text \<open>
  C9, amended: the chord table has 48 entries. For every root \<open>r\<close> from 0 to 11 it
  maps the major triad on \<open>r\<close> to the root's name, the minor triad to the name followed
  by m, the major seventh chord to the name followed by maj7 and the dominant seventh
  chord to the name followed by 7, the names being C, C#, D, D#, E, F, F#, G, G#, A, A#, B.
\<close>

theorem chord_patterns_table:
  "card (dom chord_patterns) = 48 \<and>
   (\<forall>r\<in>{0..11}.
      chord_patterns {r, (r + 4) mod 12, (r + 7) mod 12} = Some (note_names ! nat r) \<and>
      chord_patterns {r, (r + 3) mod 12, (r + 7) mod 12} = Some (note_names ! nat r @ ''m'') \<and>
      chord_patterns {r, (r + 4) mod 12, (r + 7) mod 12, (r + 11) mod 12} =
        Some (note_names ! nat r @ ''maj7'') \<and>
      chord_patterns {r, (r + 4) mod 12, (r + 7) mod 12, (r + 10) mod 12} =
        Some (note_names ! nat r @ ''7'')) \<and>
   note_names =
     [''C'', ''C#'', ''D'', ''D#'', ''E'', ''F'', ''F#'', ''G'', ''G#'', ''A'', ''A#'', ''B'']"
  using chord_patterns_card chord_patterns_rows note_names_def by blast

text \<open>The theorem at the root 9: A minor and A7.\<close>

theorem chord_patterns_table_witness:
  "(9::int) \<in> {0..11} \<and> chord_patterns {9, 0, 4} = Some ''Am'' \<and>
   chord_patterns {9, 1, 4, 7} = Some ''A7''"
proof -
  have r: "(9::int) \<in> {0..11}" by simp
  from chord_patterns_table have
    "\<forall>r\<in>{0..11}.
      chord_patterns {r, (r + 4) mod 12, (r + 7) mod 12} = Some (note_names ! nat r) \<and>
      chord_patterns {r, (r + 3) mod 12, (r + 7) mod 12} = Some (note_names ! nat r @ ''m'') \<and>
      chord_patterns {r, (r + 4) mod 12, (r + 7) mod 12, (r + 11) mod 12} =
        Some (note_names ! nat r @ ''maj7'') \<and>
      chord_patterns {r, (r + 4) mod 12, (r + 7) mod 12, (r + 10) mod 12} =
        Some (note_names ! nat r @ ''7'')"
    by blast
  from bspec [OF this r] show ?thesis
    by (simp add: note_names_def)
qed

text \<open>C9 as stated: the table does not have 96 entries.\<close>

theorem chord_patterns_size_counterexample: "card (dom chord_patterns) \<noteq> 96"
  by (simp add: chord_patterns_card)

subsection \<open>Float arithmetic\<close>

lemma floor_rat_numeral: "\<lfloor>numeral a / numeral b :: rat\<rfloor> = numeral a div numeral b"
  using floor_divide_of_int_eq [of "numeral a" "numeral b", where ?'a = rat] by simp

lemma powi_neg_numeral: "(2::rat) powi (- numeral n) = 1 / 2 ^ numeral n"
  by (simp add: power_int_minus_divide)

lemmas fl_eval = floor_rat_numeral powi_neg_numeral float_add_def float_div_def float_round_def float_exponent_def
  round_half_even_def halvings.simps doublings.simps Let_def


lemma halvings_bounds: "1 \<le> x \<Longrightarrow> 2 ^ halvings x \<le> x \<and> x < 2 ^ Suc (halvings x)"
proof (induction x rule: halvings.induct)
  case (1 x)
  show ?case
  proof (cases "x < 2")
    case True
    with "1.prems" show ?thesis by (simp add: halvings.simps)
  next
    case False
    then have "1 \<le> x / 2" by simp
    from "1.IH" [OF False this] False show ?thesis
      by (simp add: halvings.simps [of x])
  qed
qed

lemma doublings_bounds:
  "0 < x \<Longrightarrow> x < 1 \<Longrightarrow> 1 \<le> 2 ^ doublings x * x \<and> 2 ^ doublings x * x < 2"
proof (induction x rule: doublings.induct)
  case (1 x)
  have unfold: "doublings x = Suc (doublings (2 * x))"
    using "1.prems" by (simp add: doublings.simps [of x])
  show ?case
  proof (cases "2 * x < 1")
    case True
    from "1.IH" "1.prems" True show ?thesis
      by (simp add: unfold mult.assoc)
  next
    case False
    then have "doublings (2 * x) = 0" by (simp add: doublings.simps [of "2 * x"])
    with False "1.prems" show ?thesis by (simp add: unfold)
  qed
qed

lemma float_exponent_bounds:
  assumes "x \<noteq> 0"
  shows "2 ^ 52 \<le> \<bar>x\<bar> / 2 powi float_exponent x \<and> \<bar>x\<bar> / 2 powi float_exponent x < 2 ^ 53"
proof (cases "1 \<le> \<bar>x\<bar>")
  case True
  let ?h = "halvings \<bar>x\<bar>"
  have e: "float_exponent x = int ?h - 52" using True by (simp add: float_exponent_def)
  have p: "(2::rat) powi (int ?h - 52) = 2 ^ ?h / 2 ^ 52"
    by (simp add: power_int_diff)
  from halvings_bounds [OF True] have "2 ^ ?h \<le> \<bar>x\<bar>" and "\<bar>x\<bar> < 2 * 2 ^ ?h" by simp_all
  then show ?thesis unfolding e p by (simp add: field_simps)
next
  case False
  let ?d = "doublings \<bar>x\<bar>"
  from False assms have x: "0 < \<bar>x\<bar>" "\<bar>x\<bar> < 1" by simp_all
  have e: "float_exponent x = - int ?d - 52" using False by (simp add: float_exponent_def)
  have p: "(2::rat) powi (- int ?d - 52) = 1 / (2 ^ ?d * 2 ^ 52)"
    by (simp add: power_int_diff power_int_minus_divide)
  from doublings_bounds [OF x] have "1 \<le> 2 ^ ?d * \<bar>x\<bar>" and "2 ^ ?d * \<bar>x\<bar> < 2" by simp_all
  then show ?thesis unfolding e p by (simp add: field_simps)
qed

lemma round_half_even_error: "\<bar>of_int (round_half_even m) - m\<bar> \<le> 1 / 2"
proof -
  have "of_int \<lfloor>m\<rfloor> \<le> m" and "m < of_int \<lfloor>m\<rfloor> + 1" by linarith+
  then show ?thesis
    by (auto simp: round_half_even_def Let_def abs_le_iff)
qed

lemma float_round_error: "\<bar>float_round x - x\<bar> \<le> \<bar>x\<bar> / 2 ^ 53"
proof (cases "x = 0")
  case True
  then show ?thesis by (simp add: float_round_def)
next
  case False
  define p where "p = (2::rat) powi float_exponent x"
  define m where "m = \<bar>x\<bar> / p"
  have p: "0 < p" by (simp add: p_def)
  from float_exponent_bounds [OF False] have m: "2 ^ 52 \<le> m" by (simp add: m_def p_def)
  have x: "x = sgn x * m * p" using p by (simp add: m_def sgn_mult_abs)
  have fl: "float_round x = sgn x * of_int (round_half_even m) * p"
    using False by (simp add: float_round_def Let_def m_def p_def)
  have "float_round x - x = sgn x * (of_int (round_half_even m) - m) * p"
    by (subst (2) x) (simp add: fl algebra_simps)
  then have "\<bar>float_round x - x\<bar> = \<bar>of_int (round_half_even m) - m\<bar> * p"
    using False p by (simp add: abs_mult abs_sgn_eq)
  also have "\<dots> \<le> (1 / 2) * p"
    using round_half_even_error [of m] p by (simp add: mult_right_mono)
  also have "\<dots> \<le> (m / 2 ^ 52) * p / 2"
    using m p by (simp add: field_simps)
  also have "\<dots> = \<bar>x\<bar> / 2 ^ 53" using p by (simp add: m_def)
  finally show ?thesis .
qed

lemma float_round_lower:
  assumes "0 \<le> x"
  shows "x - x / 2 ^ 53 \<le> float_round x"
proof -
  have "x - float_round x \<le> \<bar>float_round x - x\<bar>" by simp
  also have "\<dots> \<le> \<bar>x\<bar> / 2 ^ 53" by (rule float_round_error)
  finally show ?thesis using assms by simp
qed

lemma float_round_pos: "0 < x \<Longrightarrow> 0 < float_round x"
proof -
  assume x: "0 < x"
  then have "0 < x - x / 2 ^ 53" by (simp add: field_simps)
  with float_round_lower [of x] x show ?thesis by simp
qed

subsection \<open>The final pass over the chord names\<close>

lemma unique_loop_distinct: "distinct u \<Longrightarrow> distinct (unique_loop cs u)"
  by (induction cs u rule: unique_loop.induct) (auto simp: Let_def)

lemma unique_loop_length: "length u < 8 \<Longrightarrow> length (unique_loop cs u) \<le> 8"
  by (induction cs u rule: unique_loop.induct) (auto simp: Let_def)

lemma distinct_distinct_adj: "distinct xs \<Longrightarrow> distinct_adj xs"
  by (induction xs) (auto simp: distinct_adj_Cons)

subsection \<open>The notes of a window\<close>

lemma collect_notes_acc:
  "collect_notes insts acc = acc @ concat (map inst_notes (filter (\<lambda>i. \<not> is_drum i) insts))"
  by (induction insts arbitrary: acc) auto

lemma window_notes_loop_acc:
  "window_notes_loop ns t S acc =
     acc @ map (\<lambda>n. pitch n mod 12)
       (filter (\<lambda>n. (start n \<le> t \<and> t < end_time n) \<or> (t \<le> start n \<and> start n < float_add t S)) ns)"
  by (induction ns arbitrary: acc) auto

lemma window_notes_loop_range:
  "p \<in> set (window_notes_loop ns t S []) \<Longrightarrow> 0 \<le> p \<and> p \<le> 11"
  by (auto simp: window_notes_loop_acc)

text \<open>
  C5, amended: the pass of the loop at \<^verbatim>\<open>current_time\<close> \<open>t\<close> with
  \<^verbatim>\<open>window_size\<close> \<open>S\<close> collects, in the order of the notes, the pitch class
  \<open>pitch mod 12\<close> of exactly the notes with \<open>start \<le> t < end\<close> or with
  \<open>t \<le> start\<close> and \<open>start\<close> below the float sum of \<open>t\<close> and \<open>S\<close>, that is the sum
  rounded to a double; one pitch class for each such note.
\<close>

theorem window_notes_collected:
  "window_notes_loop all_notes t S [] =
     map (\<lambda>n. pitch n mod 12)
       (filter (\<lambda>n. (start n \<le> t \<and> t < end_time n) \<or> (t \<le> start n \<and> start n < float_add t S))
          all_notes) \<and>
   length (window_notes_loop all_notes t S []) =
     length (filter (\<lambda>n. (start n \<le> t \<and> t < end_time n) \<or> (t \<le> start n \<and> start n < float_add t S))
          all_notes)"
  by (simp add: window_notes_loop_acc)

lemma late_window_size: "window_size_of 25 = 4691249611844267 / 2251799813685248"
  by (simp add: window_size_of_def num_windows_of_def py_int_def fl_eval)

lemma late_window_start:
  "float_add (float_add 0 (4691249611844267 / 2251799813685248))
     (4691249611844267 / 2251799813685248) = 4691249611844267 / 1125899906842624"
  by (simp add: fl_eval)

lemma late_window_end:
  "float_add (4691249611844267 / 1125899906842624) (4691249611844267 / 2251799813685248) = 25 / 4"
  by (simp add: fl_eval)

text \<open>
  C5 as stated: in a recording of 25 seconds the third pass of the loop has
  \<open>t = 4.166666666666667\<close> and \<open>S = 2.0833333333333335\<close>. A note that starts at 6.25
  satisfies \<open>t \<le> start < t + S\<close>, but the float sum of \<open>t\<close> and \<open>S\<close> is 6.25 and the pass
  does not collect the note.
\<close>

theorem window_notes_counterexample:
  "window_size_of 25 = 4691249611844267 / 2251799813685248 \<and>
   float_add (float_add 0 (window_size_of 25)) (window_size_of 25) =
     4691249611844267 / 1125899906842624 \<and>
   4691249611844267 / 1125899906842624 \<le> start late_note \<and>
   start late_note < 4691249611844267 / 1125899906842624 + 4691249611844267 / 2251799813685248 \<and>
   window_notes_loop [late_note] (4691249611844267 / 1125899906842624)
     (4691249611844267 / 2251799813685248) [] = []"
  by (simp add: late_window_size late_window_start late_window_end late_note_def)

subsection \<open>Counting pitch classes\<close>

lemma counter_add_keys: "fst ` set (counter_add x c) = insert x (fst ` set c)"
  by (induction x c rule: counter_add.induct) auto

lemma Counter_foldl_keys:
  "fst ` set (foldl (\<lambda>c x. counter_add x c) c0 xs) = fst ` set c0 \<union> set xs"
  by (induction xs arbitrary: c0) (auto simp: counter_add_keys)

lemma Counter_keys: "fst ` set (Counter xs) = set xs"
  by (simp add: Counter_def Counter_foldl_keys)

lemma most_common_keys: "set (map fst (most_common n c)) \<subseteq> fst ` set c"
proof -
  have "set (most_common n c) \<subseteq> set c"
    unfolding most_common_def using set_take_subset [of n "sort_key (\<lambda>(x, k). - int k) c"] by simp
  then show ?thesis by auto
qed

subsection \<open>One pass of the loop\<close>

lemma window_step_cases:
  "window_step ns S t chords = Inr chords \<or>
   (\<exists>name. window_step ns S t chords = Inr (chords @ [name]))"
proof -
  let ?w = "window_notes_loop ns t S []"
  let ?P = "map fst (most_common 6 (Counter ?w))"
  have "set ?P \<subseteq> set ?w"
    using most_common_keys [of 6 "Counter ?w"] by (simp add: Counter_keys)
  then have range: "\<forall>p\<in>set ?P. 0 \<le> p \<and> p \<le> 11"
    using window_notes_loop_range by blast
  show ?thesis
  proof (cases "?P = []")
    case True
    then show ?thesis by (simp add: window_step_def Let_def)
  next
    case False
    from pitches_to_chord_name_ok [OF False range] show ?thesis
      by (simp add: window_step_def Let_def)
  qed
qed

lemma window_step_few:
  "length (window_notes_loop ns t S []) < 3 \<Longrightarrow> window_step ns S t chords = Inr chords"
  by (simp add: window_step_def Let_def)

lemma run_windows_total: "\<exists>c. run_windows ns S ts chords = Inr c"
proof (induction ts arbitrary: chords)
  case Nil
  show ?case by simp
next
  case (Cons t ts)
  from window_step_cases [of ns S t chords] obtain c where "window_step ns S t chords = Inr c"
    by blast
  with Cons.IH [of c] show ?case by simp
qed

lemma run_windows_few:
  "\<forall>t\<in>set ts. length (window_notes_loop ns t S []) < 3 \<Longrightarrow> run_windows ns S ts chords = Inr chords"
  by (induction ts) (simp_all add: window_step_few)

subsection \<open>The loop over the windows\<close>

lemma window_loop_enter:
  "current_time < song_length \<Longrightarrow>
   window_loop all_notes song_length window_size current_time chords =
     (case window_step all_notes window_size current_time chords of
        Inl e \<Rightarrow> Some (Inl e)
      | Inr chords' \<Rightarrow>
          window_loop all_notes song_length window_size
            (float_add current_time window_size) chords')"
  by (subst window_loop.simps) simp

lemma window_loop_exit:
  "\<not> current_time < song_length \<Longrightarrow>
   window_loop all_notes song_length window_size current_time chords = Some (Inr chords)"
  by (subst window_loop.simps) simp

lemma window_starts_enter:
  "current_time < song_length \<Longrightarrow>
   window_starts song_length window_size current_time visited =
     window_starts song_length window_size (float_add current_time window_size)
       (visited @ [current_time])"
  by (subst window_starts.simps) simp

lemma window_starts_exit:
  "\<not> current_time < song_length \<Longrightarrow>
   window_starts song_length window_size current_time visited = Some visited"
  by (subst window_starts.simps) simp

text \<open>
  When every float addition of the window size moves the time forward by at least half
  the window size, the loop ends, and it is its body run at the start times that
  \<open>window_starts\<close> lists.
\<close>

lemma window_loop_runs:
  assumes S: "0 < S"
    and growth: "\<And>t. 0 \<le> t \<Longrightarrow> t < T \<Longrightarrow> t + S / 2 \<le> float_add t S"
    and t: "0 \<le> t"
  shows "\<exists>ts. window_starts T S t acc = Some (acc @ ts) \<and>
              window_loop ns T S t chords = Some (run_windows ns S ts chords)"
  using t
proof (induction "nat \<lceil>(T - t) * 2 / S\<rceil>" arbitrary: t acc chords rule: less_induct)
  case less
  show ?case
  proof (cases "t < T")
    case False
    then have "window_starts T S t acc = Some (acc @ [])"
      and "window_loop ns T S t chords = Some (run_windows ns S [] chords)"
      by (simp_all add: window_starts_exit window_loop_exit)
    then show ?thesis by blast
  next
    case True
    let ?t' = "float_add t S"
    from growth [OF less.prems True] have t': "t + S / 2 \<le> ?t'" .
    with less.prems S have nonneg: "0 \<le> ?t'" by simp
    have "(T - ?t') * 2 / S \<le> ((T - t) * 2 - S) / S"
      using t' S by (intro divide_right_mono) simp_all
    also have "\<dots> = (T - t) * 2 / S - 1" using S by (simp add: diff_divide_distrib)
    finally have "\<lceil>(T - ?t') * 2 / S\<rceil> \<le> \<lceil>(T - t) * 2 / S - 1\<rceil>" by (rule ceiling_mono)
    then have le: "\<lceil>(T - ?t') * 2 / S\<rceil> \<le> \<lceil>(T - t) * 2 / S\<rceil> - 1" by simp
    have "0 < (T - t) * 2 / S" using True S by simp
    then have "0 < \<lceil>(T - t) * 2 / S\<rceil>" by (simp add: less_ceiling_iff)
    with le have dec: "nat \<lceil>(T - ?t') * 2 / S\<rceil> < nat \<lceil>(T - t) * 2 / S\<rceil>" by linarith
    show ?thesis
    proof (cases "window_step ns S t chords")
      case (Inl e)
      from less.hyps [OF dec nonneg, of "acc @ [t]" chords] obtain ts
        where "window_starts T S ?t' (acc @ [t]) = Some ((acc @ [t]) @ ts)" by blast
      then have "window_starts T S t acc = Some (acc @ t # ts)"
        by (simp add: window_starts_enter [OF True])
      moreover have "window_loop ns T S t chords = Some (run_windows ns S (t # ts) chords)"
        using Inl by (simp add: window_loop_enter [OF True])
      ultimately show ?thesis by blast
    next
      case (Inr c)
      from less.hyps [OF dec nonneg, of "acc @ [t]" c] obtain ts
        where starts: "window_starts T S ?t' (acc @ [t]) = Some ((acc @ [t]) @ ts)"
          and loop: "window_loop ns T S ?t' c = Some (run_windows ns S ts c)" by blast
      from starts have "window_starts T S t acc = Some (acc @ t # ts)"
        by (simp add: window_starts_enter [OF True])
      moreover have "window_loop ns T S t chords = Some (run_windows ns S (t # ts) chords)"
        using Inr loop by (simp add: window_loop_enter [OF True])
      ultimately show ?thesis by blast
    qed
  qed
qed

lemma num_windows_of_bounds: "8 \<le> num_windows_of T" "num_windows_of T \<le> 16"
  by (simp_all add: num_windows_of_def)

lemma window_size_of_growth:
  assumes T: "0 < T"
  shows "0 < window_size_of T"
    and "\<And>t. 0 \<le> t \<Longrightarrow> t < T \<Longrightarrow> t + window_size_of T / 2 \<le> float_add t (window_size_of T)"
proof -
  let ?W = "of_int (num_windows_of T) :: rat"
  let ?S = "window_size_of T"
  have W: "8 \<le> ?W" "?W \<le> 16"
    using num_windows_of_bounds [of T] by (simp_all add: of_int_le_iff [symmetric] del: of_int_le_iff)
  define q where "q = T / ?W"
  have q: "T / 16 \<le> q" unfolding q_def using T W by (intro divide_left_mono) simp_all
  have "0 \<le> q" using q T by simp
  then have "q - q / 2 ^ 53 \<le> float_round q" by (rule float_round_lower)
  then have S_lower: "q - q / 2 ^ 53 \<le> ?S" by (simp add: window_size_of_def float_div_def q_def)
  from q S_lower T have TS: "T \<le> 17 * ?S" by simp
  with T show pos: "0 < ?S" by simp
  fix t :: rat
  assume t: "0 \<le> t" "t < T"
  with pos have "0 \<le> t + ?S" by simp
  then have "(t + ?S) - (t + ?S) / 2 ^ 53 \<le> float_round (t + ?S)" by (rule float_round_lower)
  moreover have "(t + ?S) / 2 ^ 53 \<le> ?S / 2" using t TS pos by simp
  ultimately show "t + ?S / 2 \<le> float_add t ?S" unfolding float_add_def by linarith
qed

subsection \<open>The function returns\<close>

lemma midi_to_chords_sequence:
  "midi_to_chords insts =
     map_option (\<lambda>u. if u \<noteq> [] then Some (join '' - '' u) else None) (chord_sequence insts)"
  by (simp add: midi_to_chords_def chord_sequence_def Let_def split: option.splits sum.splits)

lemma song_length_exists:
  assumes "notes0 \<noteq> []"
  shows "\<exists>T. py_max (map end_time (sort_key start notes0)) = Inr T"
proof -
  have "length (map end_time (sort_key start notes0)) = length notes0" by simp
  with assms obtain x xs where "map end_time (sort_key start notes0) = x # xs"
    by (cases "map end_time (sort_key start notes0)") auto
  then show ?thesis by simp
qed

text \<open>
  On a non-empty note list the loop ends without an exception: the function reaches the
  final pass with the names that the loop body gives at the start times of its passes.
  The rounding error of a float operation is at most the result divided by \<open>2 ^ 53\<close>,
  so each addition of the window size moves the time forward; this needs the unbounded
  exponent of the model (a window size that underflows to zero is not covered).
\<close>

lemma unique_chords_of_runs:
  assumes "notes0 \<noteq> []"
  shows "\<exists>T ts chords.
           py_max (map end_time (sort_key start notes0)) = Inr T \<and>
           window_starts T (window_size_of T) 0 [] = Some ts \<and>
           run_windows (sort_key start notes0) (window_size_of T) ts [] = Inr chords \<and>
           unique_chords_of notes0 = Some (Inr (unique_loop chords []))"
proof -
  let ?ns = "sort_key start notes0"
  from song_length_exists [OF assms] obtain T where T: "py_max (map end_time ?ns) = Inr T"
    by blast
  let ?S = "window_size_of T"
  have "\<exists>ts. window_starts T ?S 0 [] = Some ts \<and>
             window_loop ?ns T ?S 0 [] = Some (run_windows ?ns ?S ts [])"
  proof (cases "0 < T")
    case True
    have "\<exists>ts. window_starts T ?S 0 [] = Some ([] @ ts) \<and>
               window_loop ?ns T ?S 0 [] = Some (run_windows ?ns ?S ts [])"
      by (rule window_loop_runs [OF window_size_of_growth(1) [OF True]
            window_size_of_growth(2) [OF True]]) simp_all
    then show ?thesis by simp
  next
    case False
    then have "window_starts T ?S 0 [] = Some []"
      and "window_loop ?ns T ?S 0 [] = Some (run_windows ?ns ?S [] [])"
      by (simp_all add: window_starts_exit window_loop_exit)
    then show ?thesis by blast
  qed
  then obtain ts where starts: "window_starts T ?S 0 [] = Some ts"
    and loop: "window_loop ?ns T ?S 0 [] = Some (run_windows ?ns ?S ts [])" by blast
  from run_windows_total obtain chords where run: "run_windows ?ns ?S ts [] = Inr chords"
    by blast
  have "unique_chords_of notes0 = Some (Inr (unique_loop chords []))"
    using T loop run by (simp add: unique_chords_of_def)
  with T starts run show ?thesis by blast
qed

lemma chord_sequence_total: "\<exists>chords. chord_sequence insts = Some (unique_loop chords [])"
proof (cases "collect_notes insts [] = []")
  case True
  then have "chord_sequence insts = Some (unique_loop [] [])"
    by (simp add: chord_sequence_def)
  then show ?thesis by blast
next
  case False
  from unique_chords_of_runs [OF False] obtain chords
    where "unique_chords_of (collect_notes insts []) = Some (Inr (unique_loop chords []))"
    by blast
  with False have "chord_sequence insts = Some (unique_loop chords [])"
    by (simp add: chord_sequence_def)
  then show ?thesis by blast
qed

text \<open>
  C7, amended: the function has no \<^verbatim>\<open>maxChords\<close> parameter; the bound is the
  constant 8. For every input the function returns, its chord sequence has at most 8
  names, and the returned value is that sequence joined by \<^verbatim>\<open>" - "\<close>, or
  \<^verbatim>\<open>None\<close> for the empty sequence.
\<close>

theorem chord_sequence_at_most_8:
  "\<exists>u. chord_sequence instruments = Some u \<and> length u \<le> 8 \<and>
       midi_to_chords instruments = Some (if u \<noteq> [] then Some (join '' - '' u) else None)"
proof -
  obtain chords where "chord_sequence instruments = Some (unique_loop chords [])"
    using chord_sequence_total by blast
  moreover have "length (unique_loop chords []) \<le> 8" by (rule unique_loop_length) simp
  ultimately show ?thesis by (simp add: midi_to_chords_sequence)
qed

text \<open>
  C8: for every input the function returns, and its chord sequence has no two equal
  names next to each other.
\<close>

theorem chord_sequence_no_adjacent_repeat:
  "\<exists>u. chord_sequence instruments = Some u \<and> distinct_adj u \<and>
       midi_to_chords instruments = Some (if u \<noteq> [] then Some (join '' - '' u) else None)"
proof -
  obtain chords where seq: "chord_sequence instruments = Some (unique_loop chords [])"
    using chord_sequence_total by blast
  have "distinct (unique_loop chords [])" by (rule unique_loop_distinct) simp
  then have "distinct_adj (unique_loop chords [])" by (rule distinct_distinct_adj)
  with seq show ?thesis by (simp add: midi_to_chords_sequence)
qed

text \<open>
  C10: for every input the function returns, and the names of its chord sequence are
  pairwise distinct.
\<close>

theorem chord_sequence_distinct:
  "\<exists>u. chord_sequence instruments = Some u \<and> distinct u \<and>
       midi_to_chords instruments = Some (if u \<noteq> [] then Some (join '' - '' u) else None)"
proof -
  obtain chords where seq: "chord_sequence instruments = Some (unique_loop chords [])"
    using chord_sequence_total by blast
  have "distinct (unique_loop chords [])" by (rule unique_loop_distinct) simp
  with seq show ?thesis by (simp add: midi_to_chords_sequence)
qed

subsection \<open>Recordings without chords\<close>

text \<open>
  C2, amended: when every instrument is a drum kit or has no notes, no note survives,
  the function raises nothing and returns \<^verbatim>\<open>None\<close>; its chord sequence is empty.
\<close>

theorem no_notes_returns_None:
  assumes "\<forall>i\<in>set instruments. is_drum i \<or> inst_notes i = []"
  shows "collect_notes instruments [] = [] \<and> midi_to_chords instruments = Some None \<and>
         chord_sequence instruments = Some []"
proof -
  from assms have "collect_notes instruments [] = []"
    by (auto simp: collect_notes_acc)
  then show ?thesis by (simp add: midi_to_chords_def chord_sequence_def)
qed

text \<open>The theorem at a file with one drum track.\<close>

theorem no_notes_returns_None_witness:
  "midi_to_chords drums_only_song = Some None \<and> chord_sequence drums_only_song = Some []"
proof -
  have "\<forall>i\<in>set drums_only_song. is_drum i \<or> inst_notes i = []"
    by (simp add: drums_only_song_def)
  from no_notes_returns_None [OF this] show ?thesis by simp
qed

text \<open>
  C2 as stated: on a file with no instruments the returned value is \<^verbatim>\<open>None\<close>,
  not a string or a sequence.
\<close>

theorem no_notes_counterexample:
  "midi_to_chords [] = Some None \<and> (\<nexists>s. midi_to_chords [] = Some (Some s))"
  by (simp add: midi_to_chords_def)

text \<open>
  C6, amended: when no pass of the \<^verbatim>\<open>while\<close> loop collects three or more pitch
  classes, the passes being those at the loop's own float start times with its own
  float window size, no chord is emitted, the chord sequence is empty and the function
  returns \<^verbatim>\<open>None\<close>.
\<close>

theorem few_notes_no_chords:
  assumes few: "\<And>T ts t.
      py_max (map end_time (sort_key start (collect_notes instruments []))) = Inr T \<Longrightarrow>
      window_starts T (window_size_of T) 0 [] = Some ts \<Longrightarrow> t \<in> set ts \<Longrightarrow>
      length (window_notes_loop (sort_key start (collect_notes instruments [])) t
                (window_size_of T) []) < 3"
  shows "midi_to_chords instruments = Some None \<and> chord_sequence instruments = Some []"
proof -
  let ?ns = "collect_notes instruments []"
  have "chord_sequence instruments = Some []"
  proof (cases "?ns = []")
    case True
    then show ?thesis by (simp add: chord_sequence_def)
  next
    case False
    from unique_chords_of_runs [OF False] obtain T ts chords
      where T: "py_max (map end_time (sort_key start ?ns)) = Inr T"
        and starts: "window_starts T (window_size_of T) 0 [] = Some ts"
        and run: "run_windows (sort_key start ?ns) (window_size_of T) ts [] = Inr chords"
        and unique: "unique_chords_of ?ns = Some (Inr (unique_loop chords []))"
      by blast
    have "\<forall>t\<in>set ts. length (window_notes_loop (sort_key start ?ns) t (window_size_of T) []) < 3"
      using few [OF T starts] by blast
    then have "run_windows (sort_key start ?ns) (window_size_of T) ts [] = Inr []"
      by (rule run_windows_few)
    with run have "chords = []" by simp
    with unique False show ?thesis by (simp add: chord_sequence_def)
  qed
  then show ?thesis by (simp add: midi_to_chords_sequence)
qed

text \<open>The theorem at a recording of a single held note.\<close>

theorem few_notes_no_chords_witness:
  "collect_notes lone_note_song [] \<noteq> [] \<and>
   midi_to_chords lone_note_song = Some None \<and> chord_sequence lone_note_song = Some []"
proof -
  have "\<And>T ts t.
      length (window_notes_loop (sort_key start (collect_notes lone_note_song [])) t
                (window_size_of T) []) < 3"
    by (simp add: lone_note_song_def)
  from few_notes_no_chords [OF this] show ?thesis
    by (simp add: lone_note_song_def)
qed

text \<open>
  C6 as stated: the recording of a single held note never has three pitch classes in a
  window, and the function returns \<^verbatim>\<open>None\<close>, not an empty sequence.
\<close>

theorem few_notes_counterexample:
  "(\<forall>t S. length (window_notes_loop (sort_key start (collect_notes lone_note_song [])) t S [])
      < 3) \<and>
   midi_to_chords lone_note_song = Some None \<and>
   (\<nexists>s. midi_to_chords lone_note_song = Some (Some s))"
proof -
  have few: "\<And>t S.
      length (window_notes_loop (sort_key start (collect_notes lone_note_song [])) t S []) < 3"
    by (simp add: lone_note_song_def)
  have "chord_sequence lone_note_song = Some []"
  proof -
    let ?ns = "collect_notes lone_note_song []"
    have ne: "?ns \<noteq> []" by (simp add: lone_note_song_def)
    from unique_chords_of_runs [OF ne] obtain T ts chords
      where run: "run_windows (sort_key start ?ns) (window_size_of T) ts [] = Inr chords"
        and unique: "unique_chords_of ?ns = Some (Inr (unique_loop chords []))"
      by blast
    have "run_windows (sort_key start ?ns) (window_size_of T) ts [] = Inr []"
      by (rule run_windows_few) (simp add: few)
    with run have "chords = []" by simp
    with unique ne show ?thesis by (simp add: chord_sequence_def)
  qed
  then have "midi_to_chords lone_note_song = Some None" by (simp add: midi_to_chords_sequence)
  with few show ?thesis by simp
qed

subsection \<open>The recording of 23 seconds\<close>

lemma chord_patterns_C: "chord_patterns {0, 4, 7} = Some ''C''"
  by code_simp

lemma chord_patterns_G: "chord_patterns {7, 11, 2} = Some ''G''"
  by code_simp

lemma chord_patterns_Cmaj7: "chord_patterns {7, 0, 4, 11} = Some ''Cmaj7''"
  by code_simp

lemma window_step_C:
  assumes "window_notes_loop ns t S [] = [0, 4, 7]"
  shows "window_step ns S t chords =
           Inr (if chords = [] \<or> ''C'' \<noteq> last chords then chords @ [''C''] else chords)"
  by (simp add: window_step_def assms Counter_def most_common_def pitches_to_chord_name_def
      chord_patterns_C)

lemma window_step_G:
  assumes "window_notes_loop ns t S [] = [7, 11, 2]"
  shows "window_step ns S t chords =
           Inr (if chords = [] \<or> ''G'' \<noteq> last chords then chords @ [''G''] else chords)"
  by (simp add: window_step_def assms Counter_def most_common_def pitches_to_chord_name_def
      chord_patterns_G)

lemma window_step_Cmaj7:
  assumes "window_notes_loop ns t S [] = [0, 4, 7, 7, 11, 2]"
  shows "window_step ns S t chords =
           Inr (if chords = [] \<or> ''Cmaj7'' \<noteq> last chords then chords @ [''Cmaj7'']
                else chords)"
  by (simp add: window_step_def assms Counter_def most_common_def pitches_to_chord_name_def
      chord_patterns_Cmaj7)

lemma drift_collect: "collect_notes drift_song [] = drift_notes" "drift_notes \<noteq> []"
  by (simp_all add: drift_song_def drift_notes_def)

lemma drift_sorted: "sort_key start drift_notes = drift_notes"
  by (simp add: drift_notes_def)

lemma drift_length: "py_max (map end_time drift_notes) = Inr 23"
  by (simp add: drift_notes_def)

lemma drift_num_windows: "num_windows_of 23 = 11"
  by (simp add: num_windows_of_def py_int_def fl_eval)

lemma drift_window_size: "window_size_of 23 = 2354154350670941 / 1125899906842624"
  by (simp add: window_size_of_def drift_num_windows fl_eval)

lemma drift_adds:
  "float_add 0 (2354154350670941 / 1125899906842624) = 2354154350670941 / 1125899906842624"
  "float_add (2354154350670941 / 1125899906842624) (2354154350670941 / 1125899906842624) = 2354154350670941 / 562949953421312"
  "float_add (2354154350670941 / 562949953421312) (2354154350670941 / 1125899906842624) = 7062463052012823 / 1125899906842624"
  "float_add (7062463052012823 / 1125899906842624) (2354154350670941 / 1125899906842624) = 2354154350670941 / 281474976710656"
  "float_add (2354154350670941 / 281474976710656) (2354154350670941 / 1125899906842624) = 735673234584669 / 70368744177664"
  "float_add (735673234584669 / 70368744177664) (2354154350670941 / 1125899906842624) = 3531231526006411 / 281474976710656"
  "float_add (3531231526006411 / 281474976710656) (2354154350670941 / 1125899906842624) = 2059885056837073 / 140737488355328"
  "float_add (2059885056837073 / 140737488355328) (2354154350670941 / 1125899906842624) = 4708308701341881 / 281474976710656"
  "float_add (4708308701341881 / 281474976710656) (2354154350670941 / 1125899906842624) = 331052955563101 / 17592186044416"
  "float_add (331052955563101 / 17592186044416) (2354154350670941 / 1125899906842624) = 5885385876677351 / 281474976710656"
  "float_add (5885385876677351 / 281474976710656) (2354154350670941 / 1125899906842624) = 3236962232172543 / 140737488355328"
  "float_add (3236962232172543 / 140737488355328) (2354154350670941 / 1125899906842624) = 7062463052012821 / 281474976710656"
  by (simp_all add: fl_eval)

lemma drift_windows_C:
  "window_notes_loop drift_notes 0 (2354154350670941 / 1125899906842624) [] = [0, 4, 7]"
  "window_notes_loop drift_notes (2354154350670941 / 1125899906842624) (2354154350670941 / 1125899906842624) [] = [0, 4, 7]"
  "window_notes_loop drift_notes (2354154350670941 / 562949953421312) (2354154350670941 / 1125899906842624) [] = [0, 4, 7]"
  "window_notes_loop drift_notes (7062463052012823 / 1125899906842624) (2354154350670941 / 1125899906842624) [] = [0, 4, 7]"
  "window_notes_loop drift_notes (2354154350670941 / 281474976710656) (2354154350670941 / 1125899906842624) [] = [0, 4, 7]"
  "window_notes_loop drift_notes (735673234584669 / 70368744177664) (2354154350670941 / 1125899906842624) [] = [0, 4, 7]"
  "window_notes_loop drift_notes (3531231526006411 / 281474976710656) (2354154350670941 / 1125899906842624) [] = [0, 4, 7]"
  "window_notes_loop drift_notes (2059885056837073 / 140737488355328) (2354154350670941 / 1125899906842624) [] = [0, 4, 7]"
  "window_notes_loop drift_notes (4708308701341881 / 281474976710656) (2354154350670941 / 1125899906842624) [] = [0, 4, 7]"
  "window_notes_loop drift_notes (331052955563101 / 17592186044416) (2354154350670941 / 1125899906842624) [] = [0, 4, 7]"
  by (simp_all add: drift_notes_def drift_adds)

lemma drift_window_Cmaj7:
  "window_notes_loop drift_notes (5885385876677351 / 281474976710656) (2354154350670941 / 1125899906842624) [] = [0, 4, 7, 7, 11, 2]"
  by (simp add: drift_notes_def drift_adds)

lemma drift_window_G:
  "window_notes_loop drift_notes (3236962232172543 / 140737488355328) (2354154350670941 / 1125899906842624) [] = [7, 11, 2]"
  by (simp add: drift_notes_def drift_adds)

lemmas drift_steps =
  drift_windows_C [THEN window_step_C] drift_window_Cmaj7 [THEN window_step_Cmaj7]
  drift_window_G [THEN window_step_G]

lemma drift_loop:
  "window_loop drift_notes 23 (2354154350670941 / 1125899906842624) 0 [] = Some (Inr [''C'', ''Cmaj7'', ''G''])"
  by (simp add: window_loop_enter window_loop_exit drift_adds drift_steps)

lemma drift_starts:
  "window_starts 23 (2354154350670941 / 1125899906842624) 0 [] =
     Some [0,
           2354154350670941 / 1125899906842624,
           2354154350670941 / 562949953421312,
           7062463052012823 / 1125899906842624,
           2354154350670941 / 281474976710656,
           735673234584669 / 70368744177664,
           3531231526006411 / 281474976710656,
           2059885056837073 / 140737488355328,
           4708308701341881 / 281474976710656,
           331052955563101 / 17592186044416,
           5885385876677351 / 281474976710656,
           3236962232172543 / 140737488355328]"
  by (simp add: window_starts_enter window_starts_exit drift_adds)

lemma drift_unique: "unique_chords_of drift_notes = Some (Inr [''C'', ''Cmaj7'', ''G''])"
  by (simp add: unique_chords_of_def drift_sorted drift_length drift_window_size drift_loop)

lemma long_num_windows: "num_windows_of (2512164167142605 / 70368744177664) = 16"
  by (simp add: num_windows_of_def py_int_def fl_eval)

lemma long_window_size: "window_size_of (2512164167142605 / 70368744177664) = 2512164167142605 / 1125899906842624"
  by (simp add: window_size_of_def long_num_windows fl_eval)

lemma long_adds:
  "float_add 0 (2512164167142605 / 1125899906842624) = 2512164167142605 / 1125899906842624"
  "float_add (2512164167142605 / 1125899906842624) (2512164167142605 / 1125899906842624) = 2512164167142605 / 562949953421312"
  "float_add (2512164167142605 / 562949953421312) (2512164167142605 / 1125899906842624) = 7536492501427815 / 1125899906842624"
  "float_add (7536492501427815 / 1125899906842624) (2512164167142605 / 1125899906842624) = 2512164167142605 / 281474976710656"
  "float_add (2512164167142605 / 281474976710656) (2512164167142605 / 1125899906842624) = 357 / 32"
  "float_add (357 / 32) (2512164167142605 / 1125899906842624) = 3768246250713907 / 281474976710656"
  "float_add (3768246250713907 / 281474976710656) (2512164167142605 / 1125899906842624) = 2198143646249779 / 140737488355328"
  "float_add (2198143646249779 / 140737488355328) (2512164167142605 / 1125899906842624) = 5024328334285209 / 281474976710656"
  "float_add (5024328334285209 / 281474976710656) (2512164167142605 / 1125899906842624) = 1413092344017715 / 70368744177664"
  "float_add (1413092344017715 / 70368744177664) (2512164167142605 / 1125899906842624) = 6280410417856511 / 281474976710656"
  "float_add (6280410417856511 / 281474976710656) (2512164167142605 / 1125899906842624) = 3454225729821081 / 140737488355328"
  "float_add (3454225729821081 / 140737488355328) (2512164167142605 / 1125899906842624) = 7536492501427813 / 281474976710656"
  "float_add (7536492501427813 / 281474976710656) (2512164167142605 / 1125899906842624) = 1020566692901683 / 35184372088832"
  "float_add (1020566692901683 / 35184372088832) (2512164167142605 / 1125899906842624) = 8792574584999115 / 281474976710656"
  "float_add (8792574584999115 / 281474976710656) (2512164167142605 / 1125899906842624) = 4710307813392383 / 140737488355328"
  "float_add (4710307813392383 / 140737488355328) (2512164167142605 / 1125899906842624) = 5024328334285209 / 140737488355328"
  "float_add (5024328334285209 / 140737488355328) (2512164167142605 / 1125899906842624) = 5338348855178035 / 140737488355328"
  by (simp_all add: fl_eval)

lemma long_starts:
  "window_starts (2512164167142605 / 70368744177664) (2512164167142605 / 1125899906842624) 0 [] =
     Some [0,
           2512164167142605 / 1125899906842624,
           2512164167142605 / 562949953421312,
           7536492501427815 / 1125899906842624,
           2512164167142605 / 281474976710656,
           357 / 32,
           3768246250713907 / 281474976710656,
           2198143646249779 / 140737488355328,
           5024328334285209 / 281474976710656,
           1413092344017715 / 70368744177664,
           6280410417856511 / 281474976710656,
           3454225729821081 / 140737488355328,
           7536492501427813 / 281474976710656,
           1020566692901683 / 35184372088832,
           8792574584999115 / 281474976710656,
           4710307813392383 / 140737488355328,
           5024328334285209 / 140737488355328]"
  by (simp add: window_starts_enter window_starts_exit long_adds)

text \<open>
  C4: the code computes \<open>W = max 8 (min 16 (floor (T / 2)))\<close> and the window size
  \<open>T / W\<close> as the claim says, but the loop does not always make \<open>W\<close> passes: the
  float additions of the window size drift. On the recording of 23 seconds \<open>W\<close> is 11,
  eleven additions give 22.999999999999993, which is below 23, and the loop makes a
  twelfth pass, which adds G to the result. On a recording of 35.7 seconds \<open>W\<close> is 16
  and the loop makes 17 passes, more than the 8 to 16 sections of the comment at line 64.
\<close>

theorem windows_drift_extra_pass:
  "py_max (map end_time (sort_key start (collect_notes drift_song []))) = Inr 23 \<and>
   num_windows_of 23 = 11 \<and>
   window_size_of 23 = 2354154350670941 / 1125899906842624 \<and>
   window_starts 23 (window_size_of 23) 0 [] =
     Some [0,
           2354154350670941 / 1125899906842624,
           2354154350670941 / 562949953421312,
           7062463052012823 / 1125899906842624,
           2354154350670941 / 281474976710656,
           735673234584669 / 70368744177664,
           3531231526006411 / 281474976710656,
           2059885056837073 / 140737488355328,
           4708308701341881 / 281474976710656,
           331052955563101 / 17592186044416,
           5885385876677351 / 281474976710656,
           3236962232172543 / 140737488355328] \<and>
   length [0,
           2354154350670941 / 1125899906842624,
           2354154350670941 / 562949953421312,
           7062463052012823 / 1125899906842624,
           2354154350670941 / 281474976710656,
           735673234584669 / 70368744177664,
           3531231526006411 / 281474976710656,
           2059885056837073 / 140737488355328,
           4708308701341881 / 281474976710656,
           331052955563101 / 17592186044416,
           5885385876677351 / 281474976710656,
           3236962232172543 / 140737488355328 :: rat] = 12 \<and>
   3236962232172543 / 140737488355328 < (23 :: rat) \<and>
   midi_to_chords drift_song = Some (Some ''C - Cmaj7 - G'') \<and>
   num_windows_of (2512164167142605 / 70368744177664) = 16 \<and>
   (\<exists>ts. window_starts (2512164167142605 / 70368744177664) (window_size_of (2512164167142605 / 70368744177664)) 0 [] = Some ts \<and> length ts = 17)"
  by (simp add: drift_collect drift_sorted drift_length drift_num_windows drift_window_size
      drift_starts drift_unique midi_to_chords_def long_num_windows long_window_size long_starts)

subsection \<open>The alternating recording\<close>

lemma alt_collect: "collect_notes alt_song [] = alt_notes" "alt_notes \<noteq> []"
  by (simp_all add: alt_song_def alt_notes_def seg_def)

lemma alt_sorted: "sort_key start alt_notes = alt_notes"
  by (simp add: alt_notes_def seg_def)

lemma alt_length: "py_max (map end_time alt_notes) = Inr 8"
  by (simp add: alt_notes_def seg_def)

lemma alt_num_windows: "num_windows_of 8 = 8"
  by (simp add: num_windows_of_def py_int_def fl_eval)

lemma alt_window_size: "window_size_of 8 = 1"
  by (simp add: window_size_of_def alt_num_windows fl_eval)

lemma alt_adds:
  "float_add 0 1 = 1" "float_add 1 1 = 2" "float_add 2 1 = 3" "float_add 3 1 = 4"
  "float_add 4 1 = 5" "float_add 5 1 = 6" "float_add 6 1 = 7" "float_add 7 1 = 8"
  by (simp_all add: fl_eval)

lemma alt_windows_C:
  "window_notes_loop alt_notes 0 1 [] = [0, 4, 7]"
  "window_notes_loop alt_notes 2 1 [] = [0, 4, 7]"
  "window_notes_loop alt_notes 4 1 [] = [0, 4, 7]"
  "window_notes_loop alt_notes 6 1 [] = [0, 4, 7]"
  by (simp_all add: alt_notes_def seg_def alt_adds)

lemma alt_windows_G:
  "window_notes_loop alt_notes 1 1 [] = [7, 11, 2]"
  "window_notes_loop alt_notes 3 1 [] = [7, 11, 2]"
  "window_notes_loop alt_notes 5 1 [] = [7, 11, 2]"
  "window_notes_loop alt_notes 7 1 [] = [7, 11, 2]"
  by (simp_all add: alt_notes_def seg_def alt_adds)

lemmas alt_steps = alt_windows_C [THEN window_step_C] alt_windows_G [THEN window_step_G]

lemma alt_loop:
  "window_loop alt_notes 8 1 0 [] =
     Some (Inr [''C'', ''G'', ''C'', ''G'', ''C'', ''G'', ''C'', ''G''])"
  by (simp add: window_loop_enter window_loop_exit alt_adds alt_steps)

lemma alt_unique: "unique_chords_of alt_notes = Some (Inr [''C'', ''G''])"
  by (simp add: unique_chords_of_def alt_sorted alt_length alt_window_size alt_loop)

lemma alt_sequence: "chord_sequence alt_song = Some [''C'', ''G'']"
  by (simp add: chord_sequence_def alt_collect alt_unique)

text \<open>
  C1, amended: on the recording that alternates every second between C major and G major
  for 8 seconds, the 8 windows of one second give C, G, C, G, C, G, C, G, and the final
  pass over them keeps the first occurrence of each name only: the chord sequence is
  C, G and the function returns \<^verbatim>\<open>"C - G"\<close>.
\<close>

theorem alternating_song_chords:
  "py_max (map end_time (sort_key start (collect_notes alt_song []))) = Inr 8 \<and>
   num_windows_of 8 = 8 \<and> window_size_of 8 = 1 \<and>
   window_loop (sort_key start (collect_notes alt_song [])) 8 (window_size_of 8) 0 [] =
     Some (Inr [''C'', ''G'', ''C'', ''G'', ''C'', ''G'', ''C'', ''G'']) \<and>
   chord_sequence alt_song = Some [''C'', ''G''] \<and>
   midi_to_chords alt_song = Some (Some ''C - G'')"
  by (simp add: alt_collect alt_sorted alt_length alt_num_windows alt_window_size alt_loop
      alt_sequence midi_to_chords_sequence)

text \<open>C1 as stated: the chord sequence of that recording is not C, G, C, G, C, G, C, G.\<close>

theorem alternating_song_counterexample:
  "chord_sequence alt_song \<noteq> Some [''C'', ''G'', ''C'', ''G'', ''C'', ''G'', ''C'', ''G'']"
  by (simp add: alt_sequence)

text \<open>
  C7 as stated: on the alternating recording the sequence has two names, more than a
  limit of 1 (or of 0) would allow.
\<close>

theorem max_chords_counterexample:
  "\<exists>u. chord_sequence alt_song = Some u \<and> \<not> length u \<le> 1"
  by (simp add: alt_sequence)

end
